theory Spec2Isabelle
  imports Complex_Main "HOL-Library.Log_Nat"
begin

section \<open>Python values used by \<open>swarm_service.py\<close>\<close>

text \<open>
  The module is Python 2. Its integers are unbounded (\<open>int\<close>), its strings are
  \<open>string\<close>, its dictionaries of labels are maps, and the exceptions it can raise are
  values of \<open>error\<close>; a function that can raise returns \<open>error + 'a\<close>.
\<close>

datatype error =
    Exception string
  | ValueError
  | OverflowError
  | IndexError
  | ZeroDivisionError

subsection \<open>Floats\<close>

text \<open>
  A Python float is an IEEE 754 binary64 value: a finite value (a rational; the sign of
  zero is not kept, no operation of the module observes it), an infinity or a NaN.
  Arithmetic computes the exact rational result and rounds it to the nearest binary64
  value, ties to even (\<open>round_b64\<close>): 53 significant bits, smallest exponent \<open>-1074\<close>,
  overflow to an infinity from \<open>2 ^ 1024\<close> on.
\<close>

datatype pyfloat = Finite rat | PosInf | NegInf | NaN

definition pow2 :: "int \<Rightarrow> rat" where
  "pow2 e = (if 0 \<le> e then 2 ^ nat e else 1 / 2 ^ nat (- e))"

definition floor_log2 :: "rat \<Rightarrow> int" where
  \<comment> \<open>for \<open>0 < q\<close>: the \<open>e\<close> with \<open>2 ^ e \<le> q < 2 ^ (e + 1)\<close>\<close>
  "floor_log2 q = (let (a, b) = quotient_of q; d = bitlen a - bitlen b
                   in if pow2 d \<le> q then d else d - 1)"

definition round_half_even :: "rat \<Rightarrow> int" where
  "round_half_even x = (let f = \<lfloor>x\<rfloor>; d = x - of_int f
     in if d < 1 / 2 then f else if 1 / 2 < d then f + 1
        else if even f then f else f + 1)"

definition round_b64 :: "rat \<Rightarrow> pyfloat" where
  "round_b64 q = (if q = 0 then Finite 0 else
     let s = \<bar>q\<bar>;
         u = max (floor_log2 s - 52) (- 1074);
         r = of_int (round_half_even (s / pow2 u)) * pow2 u
     in if 2 ^ 1024 \<le> r then (if 0 < q then PosInf else NegInf)
        else Finite (if 0 < q then r else - r))"

definition float_neg :: "pyfloat \<Rightarrow> pyfloat" where
  "float_neg x = (case x of Finite a \<Rightarrow> Finite (- a) | PosInf \<Rightarrow> NegInf
                  | NegInf \<Rightarrow> PosInf | NaN \<Rightarrow> NaN)"

fun float_mul :: "pyfloat \<Rightarrow> pyfloat \<Rightarrow> pyfloat" where
  \<comment> \<open>\<open>x * y\<close>\<close>
  "float_mul NaN y = NaN"
| "float_mul x NaN = NaN"
| "float_mul (Finite a) (Finite b) = round_b64 (a * b)"
| "float_mul (Finite a) y =
     (if a = 0 then NaN else if 0 < a then y else float_neg y)"
| "float_mul x (Finite b) =
     (if b = 0 then NaN else if 0 < b then x else float_neg x)"
| "float_mul x y = (if x = y then PosInf else NegInf)"

fun float_div :: "pyfloat \<Rightarrow> pyfloat \<Rightarrow> error + pyfloat" where
  \<comment> \<open>\<open>x / y\<close>: Python raises on a zero divisor\<close>
  "float_div x (Finite b) =
     (if b = 0 then Inl ZeroDivisionError
      else case x of
          Finite a \<Rightarrow> Inr (round_b64 (a / b))
        | NaN \<Rightarrow> Inr NaN
        | _ \<Rightarrow> Inr (if 0 < b then x else float_neg x))"
| "float_div NaN y = Inr NaN"
| "float_div x NaN = Inr NaN"
| "float_div (Finite a) y = Inr (Finite 0)"
| "float_div x y = Inr NaN"

definition py_int :: "pyfloat \<Rightarrow> error + int" where
  \<comment> \<open>\<open>int(x)\<close>: truncation toward zero; raises on NaN and on an infinity\<close>
  "py_int x = (case x of
       Finite q \<Rightarrow> Inr (if 0 \<le> q then \<lfloor>q\<rfloor> else \<lceil>q\<rceil>)
     | NaN \<Rightarrow> Inl ValueError
     | _ \<Rightarrow> Inl OverflowError)"

definition py_float :: "int \<Rightarrow> error + pyfloat" where
  \<comment> \<open>\<open>float(n)\<close>: the nearest float; raises when \<open>n\<close> is too large for one\<close>
  "py_float n = (case round_b64 (of_int n) of
       Finite r \<Rightarrow> Inr (Finite r)
     | _ \<Rightarrow> Inl OverflowError)"

definition float_ne :: "pyfloat \<Rightarrow> pyfloat \<Rightarrow> bool" where
  \<comment> \<open>\<open>x != y\<close>: a NaN differs from every float, itself included\<close>
  "float_ne x y = (x = NaN \<or> y = NaN \<or> x \<noteq> y)"

subsection \<open>Strings\<close>

fun join :: "string \<Rightarrow> string list \<Rightarrow> string" where
  \<comment> \<open>\<open>sep.join(xs)\<close>\<close>
  "join sep [] = []"
| "join sep [x] = x"
| "join sep (x # xs) = x @ sep @ join sep xs"

section \<open>The service model: class \<open>DockerService\<close>\<close>

record mount =
  source :: string
  target :: string
  type :: string

record port =
  protocol :: string
  published_port :: int
  target_port :: int

text \<open>
  \<open>service_id\<close> and \<open>service_version\<close> are \<open>False\<close> until \<open>get_service\<close> sets them, and
  the restart policy fields are \<open>None\<close> until \<open>service_from_params\<close> sets them: both are
  \<open>None\<close> here. The field \<open>image\<close> of the source is \<open>image'\<close>.
\<close>

record docker_service =
  constraints :: "string list"
  image' :: string
  args :: "string list"
  endpoint_mode :: string
  env :: "string list"
  labels :: "string \<rightharpoonup> string"
  container_labels :: "string \<rightharpoonup> string"
  limit_cpu :: pyfloat
  limit_memory :: int
  reserve_cpu :: pyfloat
  reserve_memory :: int
  mode :: string
  mounts :: "mount list"
  networks :: "string list"
  publish :: "port list"
  replicas :: int
  service_id :: "string option"
  service_version :: "int option"
  restart_policy :: "string option"
  restart_policy_attempts :: "int option"
  restart_policy_delay :: "int option"
  restart_policy_window :: "int option"

definition DockerService :: docker_service where
  \<comment> \<open>\<open>DockerService.__init__\<close>\<close>
  "DockerService = \<lparr>
     constraints = [], image' = [], args = [], endpoint_mode = ''vip'', env = [],
     labels = Map.empty, container_labels = Map.empty,
     limit_cpu = Finite 0, limit_memory = 0, reserve_cpu = Finite 0, reserve_memory = 0,
     mode = ''replicated'', mounts = [], networks = [], publish = [], replicas = 1,
     service_id = None, service_version = None,
     restart_policy = None, restart_policy_attempts = None,
     restart_policy_delay = None, restart_policy_window = None \<rparr>"

section \<open>The wire structures\<close>

text \<open>
  \<open>docker.types.RestartPolicy\<close> and \<open>docker.types.TaskTemplate\<close> belong to the docker
  client library: they are records of the arguments the module passes to them.
\<close>

record wire_mount =
  Target :: string
  Source :: string
  Type :: string

record cspec =
  Image :: string
  Mounts :: "wire_mount list"
  Args :: "string list"
  Env :: "string list"
  Labels :: "string \<rightharpoonup> string"

record RestartPolicy =
  condition :: "string option"
  delay :: "int option"
  max_attempts :: "int option"
  window :: "int option"

record resource_values =
  NanoCPUs :: int
  MemoryBytes :: int

record resources_t =
  Limits :: resource_values
  Reservations :: resource_values

record TaskTemplate =
  container_spec :: cspec
  tt_restart_policy :: RestartPolicy
  placement :: "string list"
  resources :: resources_t

datatype wire_mode = Replicated int | Global

record wire_network =
  net_Target :: string

record wire_port =
  Protocol :: string
  PublishedPort :: int
  TargetPort :: int

record endpoint_spec_t =
  Mode :: string
  Ports :: "wire_port list"

record network_name_id =
  net_name :: string
  net_id :: string

type_synonym service_description =
  "TaskTemplate \<times> wire_network list \<times> endpoint_spec_t \<times> wire_mode \<times> (string \<rightharpoonup> string)"

section \<open>The translator: \<open>generate_docker_py_service_description\<close>\<close>

fun networks_loop :: "string list \<Rightarrow> network_name_id list \<Rightarrow> error + wire_network list" where
  \<comment> \<open>the loop over \<open>self.networks\<close>; \<open>if network_id\<close> is false on \<open>None\<close> and on the
      empty string\<close>
  "networks_loop [] docker_networks = Inr []"
| "networks_loop (network_name # rest) docker_networks =
     (let network_id =
        (case filter (\<lambda>n. net_name n = network_name) docker_networks of
           [] \<Rightarrow> None
         | n # _ \<Rightarrow> Some (net_id n))
      in case network_id of
           None \<Rightarrow> Inl (Exception (''no docker networks named: '' @ network_name))
         | Some i \<Rightarrow>
             if i \<noteq> [] then
               (case networks_loop rest docker_networks of
                  Inl e \<Rightarrow> Inl e
                | Inr nets \<Rightarrow> Inr (\<lparr> net_Target = i \<rparr> # nets))
             else Inl (Exception (''no docker networks named: '' @ network_name)))"

definition generate_docker_py_service_description ::
  "docker_service \<Rightarrow> string \<Rightarrow> network_name_id list \<Rightarrow> error + service_description" where
  "generate_docker_py_service_description self name docker_networks =
     (let cs = \<lparr> Image = image' self,
                 Mounts = map (\<lambda>mount_config. \<lparr> Target = target mount_config,
                                                  Source = source mount_config,
                                                  Type = type mount_config \<rparr>) (mounts self),
                 Args = args self,
                 Env = env self,
                 Labels = container_labels self \<rparr>;
          rp = \<lparr> condition = restart_policy self,
                 delay = restart_policy_delay self,
                 max_attempts = restart_policy_attempts self,
                 window = restart_policy_window self \<rparr>
      in case py_int (float_mul (limit_cpu self) (Finite 1000000000)) of
           Inl e \<Rightarrow> Inl e
         | Inr limits_cpu \<Rightarrow>
      (case py_int (float_mul (limit_cpu self) (Finite 1000000000)) of
           Inl e \<Rightarrow> Inl e
         | Inr reservations_cpu \<Rightarrow>
      (let res = \<lparr> Limits = \<lparr> NanoCPUs = limits_cpu,
                               MemoryBytes = limit_memory self * 1024 * 1024 \<rparr>,
                    Reservations = \<lparr> NanoCPUs = reservations_cpu,
                                     MemoryBytes = limit_memory self * 1024 * 1024 \<rparr> \<rparr>;
           task_template = \<lparr> container_spec = cs,
                              tt_restart_policy = rp,
                              placement = constraints self,
                              resources = res \<rparr>;
           m = (if mode self = ''global'' then Global else Replicated (replicas self))
       in case networks_loop (networks self) docker_networks of
            Inl e \<Rightarrow> Inl e
          | Inr nets \<Rightarrow>
              Inr (task_template, nets,
                   \<lparr> Mode = endpoint_mode self,
                     Ports = map (\<lambda>p. \<lparr> Protocol = protocol p,
                                         PublishedPort = published_port p,
                                         TargetPort = target_port p \<rparr>) (publish self) \<rparr>,
                   m, labels self))))"

section \<open>The differ: \<open>compare_services\<close>\<close>

definition compare_services :: "docker_service \<Rightarrow> docker_service \<Rightarrow> bool \<times> string list \<times> bool" where
  "compare_services s1 s2 =
     (let changes =
            (if endpoint_mode s1 \<noteq> endpoint_mode s2 then [''endpoint_mode''] else [])
          @ (if env s1 \<noteq> env s2 then [''env''] else [])
          @ (if mode s1 \<noteq> mode s2 then [''mode''] else [])
          @ (if mounts s1 \<noteq> mounts s2 then [''mounts''] else [])
          @ (if networks s1 \<noteq> networks s2 then [''networks''] else [])
          @ (if replicas s1 \<noteq> replicas s2 then [''replicas''] else [])
          @ (if args s1 \<noteq> args s2 then [''args''] else [])
          @ (if constraints s1 \<noteq> constraints s2 then [''constraints''] else [])
          @ (if labels s1 \<noteq> labels s2 then [''labels''] else [])
          @ (if float_ne (limit_cpu s1) (limit_cpu s2) then [''limit_cpu''] else [])
          @ (if limit_memory s1 \<noteq> limit_memory s2 then [''limit_memory''] else [])
          @ (if float_ne (reserve_cpu s1) (reserve_cpu s2) then [''reserve_cpu''] else [])
          @ (if reserve_memory s1 \<noteq> reserve_memory s2 then [''reserve_memory''] else [])
          @ (if container_labels s1 \<noteq> container_labels s2 then [''container_labels''] else [])
          @ (if publish s1 \<noteq> publish s2 then [''publish''] else []);
          need_recreate = (networks s1 \<noteq> networks s2)
      in (0 < length changes, changes, need_recreate))"

section \<open>The state fetcher: \<open>get_networks_names_ids\<close> and \<open>get_service\<close>\<close>

text \<open>
  What the docker client returns. A key that \<open>get_service\<close> reads with \<open>get\<close> or tests
  with \<open>in\<close> is an optional field; a key it reads unconditionally is a plain field.
  Mounts, ports and network attachments have the keys of the wire structures above.
\<close>

record raw_network =
  raw_Name :: string
  raw_Id :: string

record raw_container_spec =
  raw_Image :: string
  raw_Env :: "string list option"
  raw_Args :: "string list option"
  raw_Labels :: "(string \<rightharpoonup> string) option"
  raw_Mounts :: "wire_mount list option"

record raw_placement =
  raw_Constraints :: "string list option"

record raw_resource_values =
  raw_NanoCPUs :: "int option"
  raw_MemoryBytes :: "int option"

record raw_resources =
  raw_Limits :: "raw_resource_values option"
  raw_Reservations :: "raw_resource_values option"

record raw_task_template =
  raw_ContainerSpec :: raw_container_spec
  raw_Placement :: "raw_placement option"
  raw_Resources :: "raw_resources option"

text \<open>\<open>Spec.Mode\<close>: the key \<open>Replicated\<close> (with its \<open>Replicas\<close>), the key \<open>Global\<close>.\<close>

record raw_mode =
  raw_Replicated :: "int option"
  raw_Global :: bool

record raw_endpoint_spec =
  raw_Endpoint_Mode :: "string option"
  raw_Ports :: "wire_port list option"

record raw_endpoint =
  raw_Endpoint_Spec :: "raw_endpoint_spec option"

record raw_spec =
  raw_TaskTemplate :: raw_task_template
  raw_Spec_Labels :: "(string \<rightharpoonup> string) option"
  raw_Mode :: raw_mode
  raw_Networks :: "wire_network list option"

record raw_service =
  raw_ID :: string
  raw_Version_Index :: int
  raw_Spec :: raw_spec
  raw_Endpoint :: "raw_endpoint option"

text \<open>
  The docker client \<open>self.dc\<close> as the module reads it: \<open>services(filters={'name': name})\<close>
  and \<open>networks()\<close>.
\<close>

record docker_client =
  dc_services :: "string \<Rightarrow> raw_service list"
  dc_networks :: "raw_network list"

definition get_networks_names_ids :: "docker_client \<Rightarrow> network_name_id list" where
  "get_networks_names_ids dc =
     map (\<lambda>n. \<lparr> net_name = raw_Name n, net_id = raw_Id n \<rparr>) (dc_networks dc)"

definition or_default :: "'a option \<Rightarrow> 'a \<Rightarrow> 'a" where
  \<comment> \<open>\<open>d.get(key, default)\<close>\<close>
  "or_default v d = (case v of None \<Rightarrow> d | Some x \<Rightarrow> x)"

definition read_cpu :: "int \<Rightarrow> error + pyfloat" where
  \<comment> \<open>\<open>float(n)/1000000000\<close>\<close>
  "read_cpu n = (case py_float n of
       Inl e \<Rightarrow> Inl e
     | Inr x \<Rightarrow> float_div x (Finite 1000000000))"

definition read_memory :: "int \<Rightarrow> int" where
  \<comment> \<open>\<open>int(n)/1024/1024\<close>, the integer division of Python 2\<close>
  "read_memory n = n div 1024 div 1024"

definition read_resources :: "raw_task_template \<Rightarrow> docker_service \<Rightarrow> error + docker_service" where
  \<comment> \<open>the block \<open>if 'Resources' in task_template_data.keys()\<close>\<close>
  "read_resources task_template_data ds =
     (case raw_Resources task_template_data of
        None \<Rightarrow> Inr ds
      | Some r \<Rightarrow>
         (case (case raw_Limits r of
                  None \<Rightarrow> Inr ds
                | Some l \<Rightarrow>
                   (case (case raw_NanoCPUs l of
                            None \<Rightarrow> Inr ds
                          | Some n \<Rightarrow> (case read_cpu n of
                                         Inl e \<Rightarrow> Inl e
                                       | Inr x \<Rightarrow> Inr (ds\<lparr> limit_cpu := x \<rparr>))) of
                      Inl e \<Rightarrow> Inl e
                    | Inr ds1 \<Rightarrow>
                       (case raw_MemoryBytes l of
                          None \<Rightarrow> Inr ds1
                        | Some m \<Rightarrow> Inr (ds1\<lparr> limit_memory := read_memory m \<rparr>)))) of
            Inl e \<Rightarrow> Inl e
          | Inr ds2 \<Rightarrow>
             (case raw_Reservations r of
                None \<Rightarrow> Inr ds2
              | Some v \<Rightarrow>
                 (case (case raw_NanoCPUs v of
                          None \<Rightarrow> Inr ds2
                        | Some n \<Rightarrow> (case read_cpu n of
                                       Inl e \<Rightarrow> Inl e
                                     | Inr x \<Rightarrow> Inr (ds2\<lparr> reserve_cpu := x \<rparr>))) of
                    Inl e \<Rightarrow> Inl e
                  | Inr ds3 \<Rightarrow>
                     (case raw_MemoryBytes v of
                        None \<Rightarrow> Inr ds3
                      | Some m \<Rightarrow> Inr (ds3\<lparr> reserve_memory := read_memory m \<rparr>))))))"

definition read_mode :: "raw_mode \<Rightarrow> docker_service \<Rightarrow> error + docker_service" where
  \<comment> \<open>the block \<open>if 'Replicated' in mode.keys()\<close>; the message ends with the dictionary,
      which has no key here\<close>
  "read_mode m ds =
     (case raw_Replicated m of
        Some n \<Rightarrow> Inr (ds\<lparr> mode := ''replicated'', replicas := n \<rparr>)
      | None \<Rightarrow>
          if raw_Global m then Inr (ds\<lparr> mode := ''global'' \<rparr>)
          else Inl (Exception ''Unknown service mode: {}''))"

fun read_networks :: "wire_network list \<Rightarrow> network_name_id list \<Rightarrow> error + string list" where
  \<comment> \<open>the loop over \<open>raw_data['Spec'].get('Networks',[])\<close>; \<open>[...][0]\<close> raises on no match\<close>
  "read_networks [] networks_names_ids = Inr []"
| "read_networks (raw_network_data # rest) networks_names_ids =
     (case map net_name
             (filter (\<lambda>network_name_id. net_id network_name_id = net_Target raw_network_data)
                networks_names_ids) of
        [] \<Rightarrow> Inl IndexError
      | network_name # _ \<Rightarrow>
          (case read_networks rest networks_names_ids of
             Inl e \<Rightarrow> Inl e
           | Inr names \<Rightarrow> Inr (network_name # names)))"

definition read_publish :: "raw_endpoint option \<Rightarrow> docker_service \<Rightarrow> docker_service" where
  \<comment> \<open>the block \<open>if raw_data_endpoint\<close>: an absent and an empty dictionary both skip it,
      and an empty one read through would leave the defaults as well\<close>
  "read_publish raw_data_endpoint ds =
     (case raw_data_endpoint of
        None \<Rightarrow> ds
      | Some ep \<Rightarrow>
         (case raw_Endpoint_Spec ep of
            None \<Rightarrow> ds
          | Some raw_data_endpoint_spec \<Rightarrow>
              ds\<lparr> endpoint_mode := or_default (raw_Endpoint_Mode raw_data_endpoint_spec) ''vip'',
                  publish := publish ds @
                    map (\<lambda>p. \<lparr> protocol = Protocol p,
                                published_port = PublishedPort p,
                                target_port = TargetPort p \<rparr>)
                        (or_default (raw_Ports raw_data_endpoint_spec) []) \<rparr>))"

definition get_service :: "docker_client \<Rightarrow> string \<Rightarrow> error + docker_service option" where
  "get_service dc name =
     (case dc_services dc name of
        [] \<Rightarrow> Inr None
      | raw_data # _ \<Rightarrow>
         (let networks_names_ids = get_networks_names_ids dc;
              task_template_data = raw_TaskTemplate (raw_Spec raw_data);
              ds = DockerService\<lparr>
                     image' := raw_Image (raw_ContainerSpec task_template_data),
                     env := or_default (raw_Env (raw_ContainerSpec task_template_data)) [],
                     args := or_default (raw_Args (raw_ContainerSpec task_template_data)) [] \<rparr>;
              ds = (case raw_Placement task_template_data of
                      None \<Rightarrow> ds
                    | Some pl \<Rightarrow> ds\<lparr> constraints := or_default (raw_Constraints pl) [] \<rparr>);
              ds = read_publish (raw_Endpoint raw_data) ds
          in case read_resources task_template_data ds of
               Inl e \<Rightarrow> Inl e
             | Inr ds \<Rightarrow>
          (let ds = ds\<lparr> labels := or_default (raw_Spec_Labels (raw_Spec raw_data)) Map.empty,
                         container_labels :=
                           or_default (raw_Labels (raw_ContainerSpec task_template_data)) Map.empty \<rparr>
           in case read_mode (raw_Mode (raw_Spec raw_data)) ds of
                Inl e \<Rightarrow> Inl e
              | Inr ds \<Rightarrow>
           (let ds = ds\<lparr> mounts := mounts ds @
                           map (\<lambda>mount_data. \<lparr> source = Source mount_data,
                                                target = Target mount_data,
                                                type = Type mount_data \<rparr>)
                               (or_default (raw_Mounts (raw_ContainerSpec task_template_data)) []) \<rparr>
            in case read_networks (or_default (raw_Networks (raw_Spec raw_data)) [])
                      networks_names_ids of
                 Inl e \<Rightarrow> Inl e
               | Inr names \<Rightarrow>
                   Inr (Some (ds\<lparr> networks := networks ds @ names,
                                   service_version := Some (raw_Version_Index raw_data),
                                   service_id := Some (raw_ID raw_data) \<rparr>))))))"

section \<open>The mutating calls\<close>

text \<open>
  The calls \<open>self.dc.create_service\<close>, \<open>self.dc.update_service\<close> and
  \<open>self.dc.remove_service\<close> with their arguments, in the order of the source. The module
  sends them to the docker daemon; a run is modelled with the list of the calls it
  issued, in order. What the daemon answers is outside the module.
\<close>

datatype api_call =
    Dc_create_service string endpoint_spec_t wire_mode "wire_network list" TaskTemplate
      "string \<rightharpoonup> string"
  | Dc_update_service "string option" "int option" string endpoint_spec_t "wire_network list"
      wire_mode TaskTemplate "string \<rightharpoonup> string"
  | Dc_remove_service string

definition update_service ::
  "docker_client \<Rightarrow> string \<Rightarrow> docker_service \<Rightarrow> docker_service \<Rightarrow> error + api_call" where
  "update_service dc name old_service new_service =
     (case generate_docker_py_service_description new_service name
             (get_networks_names_ids dc) of
        Inl e \<Rightarrow> Inl e
      | Inr (task_template, nets, endpoint_spec, m, lbls) \<Rightarrow>
          Inr (Dc_update_service (service_id old_service) (service_version old_service)
                 name endpoint_spec nets m task_template lbls))"

definition create_service :: "docker_client \<Rightarrow> string \<Rightarrow> docker_service \<Rightarrow> error + api_call" where
  "create_service dc name service =
     (case generate_docker_py_service_description service name
             (get_networks_names_ids dc) of
        Inl e \<Rightarrow> Inl e
      | Inr (task_template, nets, endpoint_spec, m, lbls) \<Rightarrow>
          Inr (Dc_create_service name endpoint_spec m nets task_template lbls))"

definition remove_service :: "string \<Rightarrow> api_call" where
  "remove_service name = Dc_remove_service name"

section \<open>The desired service: \<open>service_from_params\<close>\<close>

text \<open>The validated arguments \<open>module.params\<close>, one field \<open>p_key\<close> for each key.\<close>

record params =
  p_name :: string
  p_image :: string
  p_state :: string
  p_mounts :: "mount list"
  p_networks :: "string list"
  p_args :: "string list"
  p_env :: "string list"
  p_publish :: "port list"
  p_constraints :: "string list"
  p_labels :: "string \<rightharpoonup> string"
  p_container_labels :: "string \<rightharpoonup> string"
  p_mode :: string
  p_replicas :: int
  p_endpoint_mode :: string
  p_restart_policy :: string
  p_limit_cpu :: pyfloat
  p_limit_memory :: int
  p_reserve_cpu :: pyfloat
  p_reserve_memory :: int
  p_restart_policy_delay :: int
  p_restart_policy_attempts :: int
  p_restart_policy_window :: int

definition service_from_params :: "params \<Rightarrow> docker_service" where
  "service_from_params ps = DockerService\<lparr>
     endpoint_mode := p_endpoint_mode ps,
     env := p_env ps,
     image' := p_image ps,
     mode := p_mode ps,
     mounts := p_mounts ps,
     networks := p_networks ps,
     replicas := p_replicas ps,
     restart_policy := Some (p_restart_policy ps),
     restart_policy_attempts := Some (p_restart_policy_attempts ps),
     restart_policy_delay := Some (p_restart_policy_delay ps),
     restart_policy_window := Some (p_restart_policy_window ps),
     args := p_args ps,
     constraints := p_constraints ps,
     labels := p_labels ps,
     container_labels := p_container_labels ps,
     limit_cpu := p_limit_cpu ps,
     limit_memory := p_limit_memory ps,
     reserve_cpu := p_reserve_cpu ps,
     reserve_memory := p_reserve_memory ps,
     publish := p_publish ps \<rparr>"

section \<open>The convergence driver: \<open>main\<close>\<close>

text \<open>
  How a run ends: \<open>module.exit_json(msg=..., changed=...)\<close> (\<open>None\<close> when \<open>changed\<close> is
  not passed), \<open>module.fail_json\<close> with the message
  \<open>"Error looking for service named %s: %s" % (name, msg)\<close>, kept as the name and the
  exception, or an exception that nothing catches. A run is its end and the mutating
  calls it issued. The docker library is taken as installed and the client as created.
\<close>

datatype outcome =
    exit_json string "bool option"
  | fail_json string error
  | raised error

definition main :: "bool \<Rightarrow> params \<Rightarrow> docker_client \<Rightarrow> outcome \<times> api_call list" where
  "main check_mode ps dc =
     (case get_service dc (p_name ps) of
        Inl msg \<Rightarrow> (fail_json (p_name ps) msg, [])
      | Inr current_service \<Rightarrow>
         (let new_service = service_from_params ps
          in case current_service of
            Some cur \<Rightarrow>
              if p_state ps = ''absent'' then
                (exit_json ''service removed'' (Some True),
                 if \<not> check_mode then [remove_service (p_name ps)] else [])
              else
                (case compare_services cur new_service of
                   (changed, changes, need_rebuild) \<Rightarrow>
                     if changed then
                       if need_rebuild then
                         if \<not> check_mode then
                           (case create_service dc (p_name ps) new_service of
                              Inl e \<Rightarrow> (raised e, [remove_service (p_name ps)])
                            | Inr c \<Rightarrow>
                                (exit_json (''rebuild service (changes: '' @ join '','' changes @ '')'')
                                   (Some True),
                                 [remove_service (p_name ps), c]))
                         else
                           (exit_json (''rebuild service (changes: '' @ join '','' changes @ '')'')
                              (Some True), [])
                       else
                         if \<not> check_mode then
                           (case update_service dc (p_name ps) cur new_service of
                              Inl e \<Rightarrow> (raised e, [])
                            | Inr c \<Rightarrow>
                                (exit_json (''service edited (changes: '' @ join '','' changes @ '')'')
                                   (Some True),
                                 [c]))
                         else
                           (exit_json (''service edited (changes: '' @ join '','' changes @ '')'')
                              (Some True), [])
                     else (exit_json ''service unchanged'' None, []))
          | None \<Rightarrow>
              if p_state ps = ''absent'' then
                (exit_json ''service already absent'' (Some False), [])
              else if \<not> check_mode then
                (case create_service dc (p_name ps) new_service of
                   Inl e \<Rightarrow> (raised e, [])
                 | Inr c \<Rightarrow> (exit_json ''service created'' (Some True), [c]))
              else (exit_json ''service created'' (Some True), [])))"

section \<open>Example services\<close>

text \<open>
  The service \<open>mydb\<close> of the module's \<open>EXAMPLES\<close>, its port under the key \<open>publish\<close>
  and the other arguments at the defaults of \<open>argument_spec\<close>; the record the docker
  daemon returns for it once created; a daemon that runs it and knows the network
  \<open>backend\<close>; a daemon that runs it in global mode; and a daemon with no service and no
  network.
\<close>

definition mydb_params :: params where
  "mydb_params = \<lparr>
     p_name = ''mydb'', p_image = ''mysql:5.7'', p_state = ''present'',
     p_mounts = [\<lparr> source = ''/swarm_data/mysql_data/'', target = ''/var/lib/mysql'',
                    type = ''bind'' \<rparr>],
     p_networks = [], p_args = [], p_env = [],
     p_publish = [\<lparr> protocol = ''tcp'', published_port = 3306, target_port = 3306 \<rparr>],
     p_constraints = [], p_labels = Map.empty, p_container_labels = Map.empty,
     p_mode = ''replicated'', p_replicas = 1, p_endpoint_mode = ''vip'',
     p_restart_policy = ''any'',
     p_limit_cpu = Finite 0, p_limit_memory = 0, p_reserve_cpu = Finite 0,
     p_reserve_memory = 0,
     p_restart_policy_delay = 0, p_restart_policy_attempts = 5,
     p_restart_policy_window = 30 \<rparr>"

definition mydb_raw :: raw_service where
  "mydb_raw = \<lparr>
     raw_ID = ''9mnpnzenvg8p8tdbtq4wvbkcz'',
     raw_Version_Index = 19,
     raw_Spec = \<lparr>
       raw_TaskTemplate = \<lparr>
         raw_ContainerSpec = \<lparr>
           raw_Image = ''mysql:5.7'', raw_Env = None, raw_Args = None, raw_Labels = None,
           raw_Mounts = Some [\<lparr> Target = ''/var/lib/mysql'',
                                 Source = ''/swarm_data/mysql_data/'', Type = ''bind'' \<rparr>] \<rparr>,
         raw_Placement = None,
         raw_Resources = Some \<lparr>
           raw_Limits = Some \<lparr> raw_NanoCPUs = None, raw_MemoryBytes = None \<rparr>,
           raw_Reservations = Some \<lparr> raw_NanoCPUs = None, raw_MemoryBytes = None \<rparr> \<rparr> \<rparr>,
       raw_Spec_Labels = None,
       raw_Mode = \<lparr> raw_Replicated = Some 1, raw_Global = False \<rparr>,
       raw_Networks = None \<rparr>,
     raw_Endpoint = Some \<lparr>
       raw_Endpoint_Spec = Some \<lparr>
         raw_Endpoint_Mode = Some ''vip'',
         raw_Ports = Some [\<lparr> Protocol = ''tcp'', PublishedPort = 3306,
                              TargetPort = 3306 \<rparr>] \<rparr> \<rparr> \<rparr>"

definition mydb_dc :: docker_client where
  "mydb_dc = \<lparr>
     dc_services = (\<lambda>name. if name = ''mydb'' then [mydb_raw] else []),
     dc_networks = [\<lparr> raw_Name = ''backend'', raw_Id = ''x6vsnoq5d9yzllvyxlvsdtiwe'' \<rparr>] \<rparr>"

definition empty_dc :: docker_client where
  "empty_dc = \<lparr> dc_services = (\<lambda>name. []), dc_networks = [] \<rparr>"

definition global_dc :: docker_client where
  "global_dc = mydb_dc\<lparr> dc_services := (\<lambda>name. if name = ''mydb''
       then [mydb_raw\<lparr> raw_Spec := (raw_Spec mydb_raw)\<lparr>
               raw_Mode := \<lparr> raw_Replicated = None, raw_Global = True \<rparr> \<rparr> \<rparr>]
       else []) \<rparr>"

text \<open>
  The service \<open>mydb\<close> with \<open>limit_cpu: 1.001\<close> and \<open>reserve_cpu: 1.001\<close>, and the
  daemon that runs it as the translator describes it: 1000999999 nano CPUs as limit
  and as reservation.
\<close>

definition cpu_params :: params where
  "cpu_params = mydb_params\<lparr> p_limit_cpu := round_b64 (1001 / 1000),
                             p_reserve_cpu := round_b64 (1001 / 1000) \<rparr>"

definition cpu_dc :: docker_client where
  "cpu_dc = mydb_dc\<lparr> dc_services := (\<lambda>name. if name = ''mydb''
       then [mydb_raw\<lparr> raw_Spec := (raw_Spec mydb_raw)\<lparr>
               raw_TaskTemplate := (raw_TaskTemplate (raw_Spec mydb_raw))\<lparr>
                 raw_Resources := Some \<lparr>
                   raw_Limits = Some \<lparr> raw_NanoCPUs = Some 1000999999,
                                        raw_MemoryBytes = Some 0 \<rparr>,
                   raw_Reservations = Some \<lparr> raw_NanoCPUs = Some 1000999999,
                                              raw_MemoryBytes = Some 0 \<rparr> \<rparr> \<rparr> \<rparr> \<rparr>]
       else []) \<rparr>"

section \<open>The examples, evaluated\<close>

lemma get_service_mydb:
  "get_service mydb_dc ''mydb'' = Inr (Some (service_from_params mydb_params
     \<lparr> restart_policy := None, restart_policy_attempts := None,
       restart_policy_delay := None, restart_policy_window := None,
       service_version := Some 19, service_id := Some ''9mnpnzenvg8p8tdbtq4wvbkcz'' \<rparr>))"
  by (simp add: get_service_def mydb_dc_def mydb_raw_def get_networks_names_ids_def
      DockerService_def or_default_def read_publish_def read_resources_def read_mode_def
      service_from_params_def mydb_params_def)

lemma get_service_global:
  "get_service global_dc ''mydb'' = Inr (Some (service_from_params mydb_params
     \<lparr> mode := ''global'',
       restart_policy := None, restart_policy_attempts := None,
       restart_policy_delay := None, restart_policy_window := None,
       service_version := Some 19, service_id := Some ''9mnpnzenvg8p8tdbtq4wvbkcz'' \<rparr>))"
  by (simp add: get_service_def global_dc_def mydb_dc_def mydb_raw_def get_networks_names_ids_def
      DockerService_def or_default_def read_publish_def read_resources_def read_mode_def
      service_from_params_def mydb_params_def)

lemma networks_mydb:
  "get_networks_names_ids mydb_dc
     = [\<lparr> net_name = ''backend'', net_id = ''x6vsnoq5d9yzllvyxlvsdtiwe'' \<rparr>]"
  by (simp add: get_networks_names_ids_def mydb_dc_def)

text \<open>The conversions of \<open>0.0\<close>, \<open>1.0\<close> and \<open>1.001\<close> cores.\<close>

lemma convert_zero: "py_int (round_b64 0) = Inr 0"
  by (simp add: py_int_def round_b64_def)

lemma convert_one: "py_int (round_b64 1000000000) = Inr 1000000000"
  by code_simp

lemma py_int_NaN: "py_int NaN = Inl ValueError"
  by (simp add: py_int_def)

lemma float_1001_value:
  "round_b64 (1001 / 1000) = Finite (2254051613498933 / 2251799813685248)"
  by code_simp

lemma float_1001_product:
  "float_mul (round_b64 (1001 / 1000)) (Finite 1000000000) = Finite (8396996607999999 / 8388608)"
  by code_simp

lemma float_1001_nano:
  "py_int (Finite (8396996607999999 / 8388608)) = Inr 1000999999"
  by code_simp

lemma float_1001_back:
  "read_cpu 1000999999 = Inr (Finite (4508103222494267 / 4503599627370496))"
  by code_simp

text \<open>The service with 1.001 cores: its description, and what is read back.\<close>

lemma generate_cpu:
  "generate_docker_py_service_description (service_from_params cpu_params) ''mydb'' dn
     = Inr (\<lparr> container_spec = \<lparr> Image = ''mysql:5.7'',
               Mounts = [\<lparr> Target = ''/var/lib/mysql'', Source = ''/swarm_data/mysql_data/'',
                           Type = ''bind'' \<rparr>],
               Args = [], Env = [], Labels = Map.empty \<rparr>,
             tt_restart_policy = \<lparr> condition = Some ''any'', delay = Some 0,
               max_attempts = Some 5, window = Some 30 \<rparr>,
             placement = [],
             resources = \<lparr> Limits = \<lparr> NanoCPUs = 1000999999, MemoryBytes = 0 \<rparr>,
                           Reservations = \<lparr> NanoCPUs = 1000999999, MemoryBytes = 0 \<rparr> \<rparr> \<rparr>,
            [],
            \<lparr> Mode = ''vip'',
              Ports = [\<lparr> Protocol = ''tcp'', PublishedPort = 3306, TargetPort = 3306 \<rparr>] \<rparr>,
            Replicated 1, Map.empty)"
  by (simp add: generate_docker_py_service_description_def service_from_params_def
      cpu_params_def mydb_params_def DockerService_def float_1001_product float_1001_nano
      Let_def)

lemma get_service_cpu:
  "get_service cpu_dc ''mydb'' = Inr (Some (service_from_params mydb_params
     \<lparr> limit_cpu := Finite (4508103222494267 / 4503599627370496),
       reserve_cpu := Finite (4508103222494267 / 4503599627370496),
       restart_policy := None, restart_policy_attempts := None,
       restart_policy_delay := None, restart_policy_window := None,
       service_version := Some 19, service_id := Some ''9mnpnzenvg8p8tdbtq4wvbkcz'' \<rparr>))"
  by (simp add: get_service_def cpu_dc_def mydb_dc_def mydb_raw_def get_networks_names_ids_def
      DockerService_def or_default_def read_publish_def read_resources_def read_mode_def
      service_from_params_def mydb_params_def float_1001_back read_memory_def)

text \<open>An update of \<open>mydb\<close>: three replicas instead of one.\<close>

lemma run_update:
  "main False (mydb_params\<lparr> p_replicas := 3 \<rparr>) mydb_dc =
     (exit_json ''service edited (changes: replicas)'' (Some True),
      [Dc_update_service (Some ''9mnpnzenvg8p8tdbtq4wvbkcz'') (Some 19) ''mydb''
         \<lparr> Mode = ''vip'',
           Ports = [\<lparr> Protocol = ''tcp'', PublishedPort = 3306, TargetPort = 3306 \<rparr>] \<rparr>
         []
         (Replicated 3)
         \<lparr> container_spec = \<lparr> Image = ''mysql:5.7'',
               Mounts = [\<lparr> Target = ''/var/lib/mysql'', Source = ''/swarm_data/mysql_data/'',
                           Type = ''bind'' \<rparr>],
               Args = [], Env = [], Labels = Map.empty \<rparr>,
           tt_restart_policy = \<lparr> condition = Some ''any'', delay = Some 0,
               max_attempts = Some 5, window = Some 30 \<rparr>,
           placement = [],
           resources = \<lparr> Limits = \<lparr> NanoCPUs = 0, MemoryBytes = 0 \<rparr>,
                         Reservations = \<lparr> NanoCPUs = 0, MemoryBytes = 0 \<rparr> \<rparr> \<rparr>
         Map.empty])"
  by (simp add: main_def get_service_mydb compare_services_def service_from_params_def
      mydb_params_def DockerService_def float_ne_def update_service_def
      generate_docker_py_service_description_def convert_zero Let_def networks_mydb)

section \<open>The differ\<close>

text \<open>
  The differ never looks at \<open>image\<close> or at the four restart policy fields.
\<close>

lemma compare_services_ignores:
  "compare_services s1 (s2\<lparr> image' := i, restart_policy := r, restart_policy_attempts := a,
      restart_policy_delay := d, restart_policy_window := w \<rparr>) = compare_services s1 s2"
  by (simp add: compare_services_def)

text \<open>
  C1. \<open>compare_services\<close> has no test of \<open>restart_policy\<close> (nor of \<open>image\<close>): for \<open>mydb\<close>
  with the restart policy \<open>any\<close> and the same service with \<open>on-failure\<close>, the case of the
  module's \<open>EXAMPLES\<close>, it reports no change, and the driver run against the daemon
  that runs \<open>mydb\<close> ends with \<open>service unchanged\<close> and issues no call.
\<close>

theorem restart_policy_change_unnoticed:
  "compare_services (service_from_params mydb_params)
     (service_from_params (mydb_params\<lparr> p_restart_policy := ''on-failure'' \<rparr>))
     = (False, [], False)
   \<and> main False (mydb_params\<lparr> p_restart_policy := ''on-failure'' \<rparr>) mydb_dc
     = (exit_json ''service unchanged'' None, [])"
  by (simp add: main_def get_service_mydb compare_services_def service_from_params_def
      mydb_params_def DockerService_def float_ne_def)

text \<open>
  C2. The flag \<open>need_recreate\<close> that \<open>compare_services\<close> returns is true exactly when
  the two services differ in \<open>networks\<close>: true for two services that differ only there,
  false for two services with the same networks, whatever else differs.
\<close>

theorem compare_services_need_recreate:
  "snd (snd (compare_services s1 s2)) = (networks s1 \<noteq> networks s2)"
  by (simp add: compare_services_def Let_def)

theorem compare_services_need_recreate_witness:
  "snd (snd (compare_services (service_from_params mydb_params)
        (service_from_params (mydb_params\<lparr> p_networks := [''backend''] \<rparr>))))
   \<and> \<not> snd (snd (compare_services (service_from_params mydb_params)
        (service_from_params (mydb_params\<lparr> p_replicas := 3 \<rparr>))))"
  using compare_services_need_recreate
          [of "service_from_params mydb_params"
              "service_from_params (mydb_params\<lparr> p_networks := [''backend''] \<rparr>)"]
        compare_services_need_recreate
          [of "service_from_params mydb_params"
              "service_from_params (mydb_params\<lparr> p_replicas := 3 \<rparr>)"]
  by (simp add: service_from_params_def mydb_params_def DockerService_def)

text \<open>
  C7. Comparing a service with itself reports no change, provided neither \<open>limit_cpu\<close>
  nor \<open>reserve_cpu\<close> is a NaN: \<open>compare_services\<close> tests the two floats with \<open>!=\<close>, and a
  NaN differs from itself.
\<close>

theorem compare_services_self:
  assumes "limit_cpu s \<noteq> NaN" and "reserve_cpu s \<noteq> NaN"
  shows "compare_services s s = (False, [], False)"
  using assms by (simp add: compare_services_def float_ne_def)

theorem compare_services_self_witness:
  "limit_cpu (service_from_params mydb_params) \<noteq> NaN
   \<and> reserve_cpu (service_from_params mydb_params) \<noteq> NaN
   \<and> compare_services (service_from_params mydb_params) (service_from_params mydb_params)
       = (False, [], False)"
proof -
  have a: "limit_cpu (service_from_params mydb_params) \<noteq> NaN"
    by (simp add: service_from_params_def mydb_params_def)
  have b: "reserve_cpu (service_from_params mydb_params) \<noteq> NaN"
    by (simp add: service_from_params_def mydb_params_def)
  from a b compare_services_self [OF a b] show ?thesis by simp
qed

text \<open>
  With a NaN as \<open>limit_cpu\<close> (the argument \<open>limit_cpu: .nan\<close>), the comparison of the
  service with itself reports the field \<open>limit_cpu\<close> as changed.
\<close>

theorem compare_services_self_nan:
  "compare_services (DockerService\<lparr> limit_cpu := NaN \<rparr>) (DockerService\<lparr> limit_cpu := NaN \<rparr>)
     = (True, [''limit_cpu''], False)"
  by (simp add: compare_services_def DockerService_def float_ne_def)

text \<open>
  C9. \<open>compare_services\<close> tests \<open>replicas\<close> whatever the mode is: two services in global
  mode that differ only in \<open>replicas\<close> are reported as changed. \<open>get_service\<close> leaves
  \<open>replicas\<close> of a global service at 1, so the driver, asked for \<open>mydb\<close> in global mode
  with \<open>replicas: 3\<close> against the daemon that runs it in global mode, reports a change
  and issues a call.
\<close>

theorem replicas_compared_in_global_mode:
  "compare_services (service_from_params (mydb_params\<lparr> p_mode := ''global'', p_replicas := 1 \<rparr>))
     (service_from_params (mydb_params\<lparr> p_mode := ''global'', p_replicas := 3 \<rparr>))
     = (True, [''replicas''], False)
   \<and> fst (main False (mydb_params\<lparr> p_mode := ''global'', p_replicas := 3 \<rparr>) global_dc)
     = exit_json ''service edited (changes: replicas)'' (Some True)
   \<and> length (snd (main False (mydb_params\<lparr> p_mode := ''global'', p_replicas := 3 \<rparr>) global_dc)) = 1"
  by (simp add: main_def get_service_global compare_services_def service_from_params_def
      mydb_params_def DockerService_def float_ne_def update_service_def
      generate_docker_py_service_description_def convert_zero Let_def
      get_networks_names_ids_def)

section \<open>The translator\<close>

text \<open>
  The translator never reads \<open>reserve_cpu\<close> or \<open>reserve_memory\<close>.
\<close>

lemma generate_ignores_reserve:
  "generate_docker_py_service_description (s\<lparr> reserve_cpu := c, reserve_memory := m \<rparr>) name dn
     = generate_docker_py_service_description s name dn"
  by (simp add: generate_docker_py_service_description_def Let_def cong: sum.case_cong)

text \<open>
  C3. The reservations of the wire structure are computed from \<open>limit_cpu\<close> and
  \<open>limit_memory\<close>: for \<open>mydb\<close> with a limit of 1.0 core and 512 MiB and a reservation of
  0.5 core and 128 MiB, the translator returns the reservations 1000000000 nano CPUs
  and 536870912 bytes, which are the limits.
\<close>

theorem reservations_from_limits:
  "map_sum id (\<lambda>d. Reservations (resources (fst d)))
      (generate_docker_py_service_description
         (service_from_params (mydb_params\<lparr> p_limit_cpu := Finite 1, p_limit_memory := 512,
              p_reserve_cpu := Finite (1 / 2), p_reserve_memory := 128 \<rparr>))
         ''mydb'' [])
     = Inr \<lparr> NanoCPUs = 1000000000, MemoryBytes = 536870912 \<rparr>"
  by (simp add: generate_docker_py_service_description_def service_from_params_def
      mydb_params_def DockerService_def convert_one Let_def)

text \<open>
  C5. The nano CPUs are \<open>int\<close> of the float product, which truncates: for \<open>mydb\<close> with
  \<open>limit_cpu: 1.001\<close> and 512 MiB, the float product is a little under 1001000000, its
  rounding is 1001000000, and the translator returns 1000999999. The bytes are
  \<open>limit_memory * 1024 * 1024\<close>.
\<close>

theorem limit_cpu_truncated:
  "float_mul (round_b64 (1001 / 1000)) (Finite 1000000000) = Finite (8396996607999999 / 8388608)
   \<and> round (8396996607999999 / 8388608 :: rat) = 1001000000
   \<and> map_sum id (\<lambda>d. Limits (resources (fst d)))
        (generate_docker_py_service_description
          (service_from_params (mydb_params\<lparr> p_limit_cpu := round_b64 (1001 / 1000),
               p_limit_memory := 512 \<rparr>))
          ''mydb'' [])
       = Inr \<lparr> NanoCPUs = 1000999999, MemoryBytes = 536870912 \<rparr>"
proof -
  have "round (8396996607999999 / 8388608 :: rat) = 1001000000"
    by (rule round_unique) simp_all
  then show ?thesis
    by (simp add: generate_docker_py_service_description_def service_from_params_def
        mydb_params_def DockerService_def float_1001_product float_1001_nano Let_def)
qed

text \<open>The two memory conversions are inverse to each other.\<close>

lemma read_memory_round_trip: "read_memory (m * 1024 * 1024) = m"
  by (simp add: read_memory_def)

text \<open>
  C10. The conversion of the fetcher does not give \<open>limit_cpu\<close> back: for \<open>mydb\<close> with
  \<open>limit_cpu: 1.001\<close> the translator returns 1000999999 nano CPUs, \<open>get_service\<close> reads
  them as the float 1.000999999, and the differ's test \<open>!=\<close> of that float against
  the desired \<open>limit_cpu\<close> is true. The driver, run against the daemon that runs the
  service as the translator described it, reports \<open>limit_cpu\<close> and \<open>reserve_cpu\<close> as
  changed and issues a call.
\<close>

theorem limit_cpu_round_trip_fails:
  "map_sum id (\<lambda>d. resources (fst d))
      (generate_docker_py_service_description (service_from_params cpu_params) ''mydb'' [])
     = Inr \<lparr> Limits = \<lparr> NanoCPUs = 1000999999, MemoryBytes = 0 \<rparr>,
             Reservations = \<lparr> NanoCPUs = 1000999999, MemoryBytes = 0 \<rparr> \<rparr>
   \<and> read_cpu 1000999999 = Inr (Finite (4508103222494267 / 4503599627370496))
   \<and> float_ne (Finite (4508103222494267 / 4503599627370496))
        (limit_cpu (service_from_params cpu_params))
   \<and> fst (main False cpu_params cpu_dc)
       = exit_json ''service edited (changes: limit_cpu,reserve_cpu)'' (Some True)
   \<and> length (snd (main False cpu_params cpu_dc)) = 1"
proof -
  let ?fetched = "service_from_params mydb_params
     \<lparr> limit_cpu := Finite (4508103222494267 / 4503599627370496),
       reserve_cpu := Finite (4508103222494267 / 4503599627370496),
       restart_policy := None, restart_policy_attempts := None,
       restart_policy_delay := None, restart_policy_window := None,
       service_version := Some 19, service_id := Some ''9mnpnzenvg8p8tdbtq4wvbkcz'' \<rparr>"
  have ne: "float_ne (Finite (4508103222494267 / 4503599627370496))
        (limit_cpu (service_from_params cpu_params))"
    by (simp add: service_from_params_def cpu_params_def float_1001_value float_ne_def)
  have cmp: "compare_services ?fetched (service_from_params cpu_params)
               = (True, [''limit_cpu'', ''reserve_cpu''], False)"
    by (simp add: compare_services_def service_from_params_def cpu_params_def mydb_params_def
        DockerService_def float_1001_value float_ne_def)
  have p: "p_name cpu_params = ''mydb''" "p_state cpu_params = ''present''"
    by (simp_all add: cpu_params_def mydb_params_def)
  have run: "fst (main False cpu_params cpu_dc)
       = exit_json ''service edited (changes: limit_cpu,reserve_cpu)'' (Some True)
     \<and> length (snd (main False cpu_params cpu_dc)) = 1"
    by (simp add: main_def p get_service_cpu cmp update_service_def generate_cpu)
  from ne run show ?thesis
    by (simp add: generate_cpu float_1001_back)
qed

text \<open>
  The loop over the network names, when no known network has an empty id: it raises on
  the first name that no known network has, and otherwise returns, name by name, the id
  of the first known network of that name.
\<close>

lemma networks_loop_unknown:
  assumes "\<forall>n \<in> set dn. net_id n \<noteq> []"
    and "find (\<lambda>nm. nm \<notin> net_name ` set dn) names = Some bad"
  shows "networks_loop names dn = Inl (Exception (''no docker networks named: '' @ bad))"
  using assms
proof (induction names)
  case Nil
  then show ?case by simp
next
  case (Cons nm names)
  show ?case
  proof (cases "nm \<in> net_name ` set dn")
    case False
    then have "filter (\<lambda>n. net_name n = nm) dn = []"
      by (auto simp add: filter_empty_conv)
    moreover from False Cons.prems have "bad = nm" by simp
    ultimately show ?thesis by simp
  next
    case True
    then obtain n ns where f: "filter (\<lambda>n. net_name n = nm) dn = n # ns"
      by (cases "filter (\<lambda>n. net_name n = nm) dn") (auto simp add: filter_empty_conv)
    then have "n \<in> set dn" by (metis filter_is_subset list.set_intros(1) subsetD)
    with Cons.prems have ne: "net_id n \<noteq> []" by blast
    from True Cons.prems have "find (\<lambda>nm. nm \<notin> net_name ` set dn) names = Some bad"
      by simp
    with Cons.IH Cons.prems(1)
    have "networks_loop names dn = Inl (Exception (''no docker networks named: '' @ bad))"
      by blast
    with f ne show ?thesis by simp
  qed
qed

lemma networks_loop_known:
  assumes "\<forall>n \<in> set dn. net_id n \<noteq> []"
    and "find (\<lambda>nm. nm \<notin> net_name ` set dn) names = None"
  shows "\<exists>nets. networks_loop names dn = Inr nets
           \<and> map (\<lambda>t. Some (net_Target t)) nets
               = map (\<lambda>nm. map_option net_id (find (\<lambda>n. net_name n = nm) dn)) names"
  using assms
proof (induction names)
  case Nil
  then show ?case by simp
next
  case (Cons nm names)
  from Cons.prems have known: "nm \<in> net_name ` set dn"
    and rest: "find (\<lambda>nm. nm \<notin> net_name ` set dn) names = None"
    by (auto split: if_splits)
  from known obtain n ns where f: "filter (\<lambda>n. net_name n = nm) dn = n # ns"
    by (cases "filter (\<lambda>n. net_name n = nm) dn") (auto simp add: filter_empty_conv)
  then have "n \<in> set dn" by (metis filter_is_subset list.set_intros(1) subsetD)
  with Cons.prems have ne: "net_id n \<noteq> []" by blast
  from f have fnd: "find (\<lambda>n. net_name n = nm) dn = Some n"
    by (induction dn) (auto split: if_splits)
  from Cons.IH Cons.prems(1) rest obtain nets where
    "networks_loop names dn = Inr nets"
    "map (\<lambda>t. Some (net_Target t)) nets
       = map (\<lambda>nm. map_option net_id (find (\<lambda>n. net_name n = nm) dn)) names"
    by blast
  with f ne fnd show ?case by simp
qed

text \<open>
  C6. When \<open>int(limit_cpu * 1000000000)\<close> does not raise and no known network has an
  empty id: if some name of \<open>networks\<close> is the name of no known network, the translator
  raises \<open>no docker networks named:\<close> with the first such name; otherwise its list of
  networks has one target for each name, in the order of \<open>networks\<close>, the id of the
  first known network of that name.
\<close>

theorem generate_networks:
  assumes "py_int (float_mul (limit_cpu s) (Finite 1000000000)) = Inr c"
    and "\<forall>n \<in> set dn. net_id n \<noteq> []"
  shows "case find (\<lambda>nm. nm \<notin> net_name ` set dn) (networks s) of
           Some bad \<Rightarrow>
             generate_docker_py_service_description s name dn
               = Inl (Exception (''no docker networks named: '' @ bad))
         | None \<Rightarrow>
             (\<exists>tt nets ep m l.
                generate_docker_py_service_description s name dn = Inr (tt, nets, ep, m, l)
                \<and> map (\<lambda>t. Some (net_Target t)) nets
                    = map (\<lambda>nm. map_option net_id (find (\<lambda>n. net_name n = nm) dn))
                        (networks s))"
proof (cases "find (\<lambda>nm. nm \<notin> net_name ` set dn) (networks s)")
  case None
  from networks_loop_known [OF assms(2) None] obtain nets where
    "networks_loop (networks s) dn = Inr nets"
    "map (\<lambda>t. Some (net_Target t)) nets
       = map (\<lambda>nm. map_option net_id (find (\<lambda>n. net_name n = nm) dn)) (networks s)"
    by blast
  with assms(1) None show ?thesis
    by (simp add: generate_docker_py_service_description_def Let_def)
next
  case (Some bad)
  from networks_loop_unknown [OF assms(2) Some] assms(1) Some show ?thesis
    by (simp add: generate_docker_py_service_description_def Let_def)
qed

theorem generate_networks_witness:
  "py_int (float_mul (limit_cpu (service_from_params (mydb_params\<lparr> p_networks := [''backend''] \<rparr>)))
       (Finite 1000000000)) = Inr 0
   \<and> (\<exists>tt nets ep m l.
        generate_docker_py_service_description
          (service_from_params (mydb_params\<lparr> p_networks := [''backend''] \<rparr>)) ''mydb''
          (get_networks_names_ids mydb_dc) = Inr (tt, nets, ep, m, l)
        \<and> map (\<lambda>t. Some (net_Target t)) nets = [Some ''x6vsnoq5d9yzllvyxlvsdtiwe''])
   \<and> generate_docker_py_service_description
          (service_from_params (mydb_params\<lparr> p_networks := [''backend'', ''frontend''] \<rparr>)) ''mydb''
          (get_networks_names_ids mydb_dc)
       = Inl (Exception ''no docker networks named: frontend'')"
proof -
  have c1: "py_int (float_mul (limit_cpu (service_from_params (mydb_params\<lparr> p_networks := [''backend''] \<rparr>)))
       (Finite 1000000000)) = Inr 0"
    by (simp add: service_from_params_def mydb_params_def convert_zero)
  have c2: "py_int (float_mul (limit_cpu (service_from_params (mydb_params\<lparr> p_networks := [''backend'', ''frontend''] \<rparr>)))
       (Finite 1000000000)) = Inr 0"
    by (simp add: service_from_params_def mydb_params_def convert_zero)
  have ids: "\<forall>n \<in> set (get_networks_names_ids mydb_dc). net_id n \<noteq> []"
    by (simp add: networks_mydb)
  from generate_networks [OF c1 ids, of "''mydb''"] generate_networks [OF c2 ids, of "''mydb''"] c1
  show ?thesis
    by (simp add: service_from_params_def mydb_params_def networks_mydb)
qed

text \<open>
  With a NaN as \<open>limit_cpu\<close> the translator raises \<open>ValueError\<close> before it reads the
  networks, whatever they are; and a name whose known network has the empty id is
  reported as not found.
\<close>

theorem generate_networks_counterexample:
  "generate_docker_py_service_description
      (service_from_params (mydb_params\<lparr> p_networks := [''backend''], p_limit_cpu := NaN \<rparr>))
      ''mydb'' [] = Inl ValueError
   \<and> generate_docker_py_service_description
      (service_from_params (mydb_params\<lparr> p_networks := [''backend''] \<rparr>))
      ''mydb'' [\<lparr> net_name = ''backend'', net_id = [] \<rparr>]
     = Inl (Exception ''no docker networks named: backend'')"
  by (simp add: generate_docker_py_service_description_def service_from_params_def
      mydb_params_def DockerService_def convert_zero Let_def py_int_NaN)

section \<open>The driver\<close>

text \<open>
  C4. In check mode the driver issues no mutating call and never ends with an uncaught
  exception; and when the run without check mode does not end with an uncaught
  exception, the two runs end the same way: the same message, with the same list of
  changes, and the same \<open>changed\<close>.
\<close>

theorem main_check_mode:
  "snd (main True ps dc) = []
   \<and> (\<forall>e. fst (main True ps dc) \<noteq> raised e)
   \<and> ((\<forall>e. fst (main False ps dc) \<noteq> raised e)
        \<longrightarrow> fst (main True ps dc) = fst (main False ps dc))"
  by (auto simp add: main_def Let_def split: sum.splits option.splits prod.splits if_splits)

theorem main_check_mode_witness:
  "(\<forall>e. fst (main False (mydb_params\<lparr> p_replicas := 3 \<rparr>) mydb_dc) \<noteq> raised e)
   \<and> fst (main True (mydb_params\<lparr> p_replicas := 3 \<rparr>) mydb_dc)
       = exit_json ''service edited (changes: replicas)'' (Some True)
   \<and> snd (main True (mydb_params\<lparr> p_replicas := 3 \<rparr>) mydb_dc) = []"
proof -
  have a: "\<forall>e. fst (main False (mydb_params\<lparr> p_replicas := 3 \<rparr>) mydb_dc) \<noteq> raised e"
    by (simp add: run_update)
  from a main_check_mode [of "mydb_params\<lparr> p_replicas := 3 \<rparr>" mydb_dc]
  show ?thesis by (simp add: run_update)
qed

text \<open>
  The translator runs only without check mode: asked to create \<open>mydb\<close> on a network
  that the daemon does not know, the run in check mode reports \<open>service created\<close> and the
  run without it ends with the exception of the translator.
\<close>

theorem check_mode_differs:
  "main True (mydb_params\<lparr> p_networks := [''backend''] \<rparr>) empty_dc
     = (exit_json ''service created'' (Some True), [])
   \<and> main False (mydb_params\<lparr> p_networks := [''backend''] \<rparr>) empty_dc
     = (raised (Exception ''no docker networks named: backend''), [])"
  by (simp add: main_def get_service_def empty_dc_def create_service_def
      generate_docker_py_service_description_def service_from_params_def
      mydb_params_def DockerService_def convert_zero Let_def get_networks_names_ids_def)

text \<open>
  What \<open>get_service\<close> returns carries the \<open>ID\<close> and the \<open>Version.Index\<close> of the first
  record of the daemon, and \<open>update_service\<close> passes those of the old service.
\<close>

lemma get_service_id_version:
  assumes "get_service dc name = Inr (Some cur)"
  shows "\<exists>raw rest. dc_services dc name = raw # rest
           \<and> service_id cur = Some (raw_ID raw)
           \<and> service_version cur = Some (raw_Version_Index raw)"
  using assms
  by (auto simp add: get_service_def Let_def split: list.splits sum.splits)

lemma update_service_args:
  assumes "update_service dc name old new = Inr c"
  shows "\<exists>ep nets m tt l. c = Dc_update_service (service_id old) (service_version old) name ep nets m tt l"
  using assms by (auto simp add: update_service_def split: sum.splits prod.splits)

lemma create_service_call:
  assumes "create_service dc name new = Inr c"
  shows "\<exists>ep nets m tt l. c = Dc_create_service name ep m nets tt l"
  using assms by (auto simp add: create_service_def split: sum.splits prod.splits)

text \<open>
  C8. Every call of \<open>self.dc.update_service\<close> that a run issues has as its first two
  arguments the \<open>service_id\<close> and the \<open>service_version\<close> of the service that
  \<open>get_service\<close> returned, which are the \<open>ID\<close> and the \<open>Version.Index\<close> of the record the
  daemon returned for the name.
\<close>

theorem update_service_id_version:
  assumes "Dc_update_service i v n ep nets m tt l \<in> set (snd (main check_mode ps dc))"
  shows "\<exists>raw rest cur. dc_services dc (p_name ps) = raw # rest
           \<and> get_service dc (p_name ps) = Inr (Some cur)
           \<and> service_id cur = Some (raw_ID raw)
           \<and> service_version cur = Some (raw_Version_Index raw)
           \<and> i = service_id cur \<and> v = service_version cur"
proof -
  from assms obtain cur where g: "get_service dc (p_name ps) = Inr (Some cur)"
    and u: "update_service dc (p_name ps) cur (service_from_params ps)
              = Inr (Dc_update_service i v n ep nets m tt l)"
    by (auto simp add: main_def Let_def remove_service_def
        split: sum.splits option.splits prod.splits if_splits
        dest: create_service_call)
  from update_service_args [OF u] have iv: "i = service_id cur" "v = service_version cur"
    by auto
  from get_service_id_version [OF g] iv g show ?thesis by blast
qed

theorem update_service_id_version_witness:
  "Dc_update_service (Some ''9mnpnzenvg8p8tdbtq4wvbkcz'') (Some 19) ''mydb''
         \<lparr> Mode = ''vip'',
           Ports = [\<lparr> Protocol = ''tcp'', PublishedPort = 3306, TargetPort = 3306 \<rparr>] \<rparr>
         []
         (Replicated 3)
         \<lparr> container_spec = \<lparr> Image = ''mysql:5.7'',
               Mounts = [\<lparr> Target = ''/var/lib/mysql'', Source = ''/swarm_data/mysql_data/'',
                           Type = ''bind'' \<rparr>],
               Args = [], Env = [], Labels = Map.empty \<rparr>,
           tt_restart_policy = \<lparr> condition = Some ''any'', delay = Some 0,
               max_attempts = Some 5, window = Some 30 \<rparr>,
           placement = [],
           resources = \<lparr> Limits = \<lparr> NanoCPUs = 0, MemoryBytes = 0 \<rparr>,
                         Reservations = \<lparr> NanoCPUs = 0, MemoryBytes = 0 \<rparr> \<rparr> \<rparr>
         Map.empty
     \<in> set (snd (main False (mydb_params\<lparr> p_replicas := 3 \<rparr>) mydb_dc))
   \<and> (\<exists>raw rest cur.
         dc_services mydb_dc (p_name (mydb_params\<lparr> p_replicas := 3 \<rparr>)) = raw # rest
         \<and> get_service mydb_dc (p_name (mydb_params\<lparr> p_replicas := 3 \<rparr>)) = Inr (Some cur)
         \<and> service_id cur = Some (raw_ID raw)
         \<and> service_version cur = Some (raw_Version_Index raw)
         \<and> Some ''9mnpnzenvg8p8tdbtq4wvbkcz'' = service_id cur
         \<and> Some 19 = service_version cur)"
  (is "?call \<in> ?calls \<and> ?fetched")
proof -
  have mem: "?call \<in> ?calls" by (simp add: run_update)
  from mem update_service_id_version [OF mem] show ?thesis by blast
qed

end
